theory Spec2Isabelle
  imports Main "HOL-Library.AList" "HOL-Library.Word"
begin

section \<open>Smart Task Analyzer: the request handler of \<^verbatim>\<open>main.py\<close>\<close>

text \<open>
  The program is one HTTP handler, \<^verbatim>\<open>analyze_task\<close>. It checks that a credential is
  configured, sends the task text to a completion service, parses the reply as JSON,
  fills in default values, validates the result against the \<^verbatim>\<open>TaskAnalysis\<close> schema,
  checks the due date and returns the validated record as the response body.

  What the handler calls but does not define (the process environment, the completion
  service, \<^verbatim>\<open>json.loads\<close>, \<^verbatim>\<open>datetime.fromisoformat\<close>) is a parameter of the model,
  collected in the record \<open>world\<close>. Every \<^verbatim>\<open>raise\<close> is a value: the handler returns
  a sum whose left side is the exception leaving it.
\<close>

subsection \<open>Values\<close>

text \<open>
  What \<^verbatim>\<open>json.loads\<close> returns: \<^verbatim>\<open>None\<close>, a \<^verbatim>\<open>bool\<close>, an \<^verbatim>\<open>int\<close>, a \<^verbatim>\<open>float\<close>
  (an IEEE double, kept as its 64 bits), a \<^verbatim>\<open>str\<close>, a \<^verbatim>\<open>list\<close> or a \<^verbatim>\<open>dict\<close>.
  A \<^verbatim>\<open>dict\<close> keeps its keys in insertion order, so it is an association list:
  \<open>map_of\<close> reads a key, \<open>AList.update\<close> assigns one (in place when the key exists,
  at the end when it is new), as Python does.
\<close>

datatype json =
    JNull
  | JBool bool
  | JInt int
  | JFloat "64 word"
  | JString string
  | JArray "json list"
  | JObject "(string \<times> json) list"

type_synonym pydict = "(string \<times> json) list"

text \<open>\<^verbatim>\<open>type(v).__name__\<close>, as it appears in the message of an \<^verbatim>\<open>AttributeError\<close>.\<close>

fun type_name :: "json \<Rightarrow> string" where
  "type_name JNull = ''NoneType''"
| "type_name (JBool _) = ''bool''"
| "type_name (JInt _) = ''int''"
| "type_name (JFloat _) = ''float''"
| "type_name (JString _) = ''str''"
| "type_name (JArray _) = ''list''"
| "type_name (JObject _) = ''dict''"

text \<open>\<^verbatim>\<open>d.get(k)\<close>: the value at \<open>k\<close>, and \<^verbatim>\<open>None\<close> when the key is absent.\<close>

definition dict_get :: "pydict \<Rightarrow> string \<Rightarrow> json" where
  "dict_get d k = (case map_of d k of None \<Rightarrow> JNull | Some v \<Rightarrow> v)"

subsection \<open>The request and response models (lines 15 to 27)\<close>

text \<open>
  The framework validates the request body against \<^verbatim>\<open>TaskRequest\<close> (a \<^verbatim>\<open>text\<close> of at
  least one character) before it calls the handler; the handler reads the text only.
\<close>

record TaskRequest =
  payload_text :: string

record TaskAnalysis =
  description :: string
  priority :: string
  due_date :: "string option"
  category :: string

text \<open>
  The errors of pydantic's validation that these field types can give: a required field
  is absent (\<^verbatim>\<open>missing\<close>), a \<^verbatim>\<open>str\<close> field holds another type (\<^verbatim>\<open>string_type\<close>),
  a \<^verbatim>\<open>Literal\<close> field holds none of its values (\<^verbatim>\<open>literal_error\<close>). An error is
  reported with the name of its field (its \<^verbatim>\<open>loc\<close>).
\<close>

datatype error_type = Missing | String_type | Literal_error

type_synonym field_error = "string \<times> error_type"

text \<open>\<^verbatim>\<open>str = Field(...)\<close>: required, a string.\<close>

fun str_field :: "json option \<Rightarrow> error_type + string" where
  "str_field None = Inl Missing"
| "str_field (Some (JString s)) = Inr s"
| "str_field (Some _) = Inl String_type"

text \<open>\<^verbatim>\<open>Literal[...] = Field(...)\<close>: required, one of the listed strings.\<close>

fun literal_field :: "string list \<Rightarrow> json option \<Rightarrow> error_type + string" where
  "literal_field allowed None = Inl Missing"
| "literal_field allowed (Some (JString s)) =
     (if s \<in> set allowed then Inr s else Inl Literal_error)"
| "literal_field allowed (Some _) = Inl Literal_error"

text \<open>\<^verbatim>\<open>str | None = Field(None)\<close>: \<^verbatim>\<open>None\<close> when absent, else \<^verbatim>\<open>None\<close> or a string.\<close>

fun optional_str_field :: "json option \<Rightarrow> error_type + string option" where
  "optional_str_field None = Inr None"
| "optional_str_field (Some JNull) = Inr None"
| "optional_str_field (Some (JString s)) = Inr (Some s)"
| "optional_str_field (Some _) = Inl String_type"

definition error_at :: "string \<Rightarrow> error_type + 'a \<Rightarrow> field_error list" where
  "error_at name r = (case r of Inl e \<Rightarrow> [(name, e)] | Inr _ \<Rightarrow> [])"

text \<open>
  \<^verbatim>\<open>TaskAnalysis(**data)\<close>: each declared field is validated, in the order of the
  class; keys of \<open>data\<close> that are no field are ignored (pydantic's default); the
  \<^verbatim>\<open>ValidationError\<close> lists the errors of all fields.
\<close>

definition TaskAnalysis_init :: "pydict \<Rightarrow> field_error list + TaskAnalysis" where
  "TaskAnalysis_init data =
     (let r1 = str_field (map_of data ''description'');
          r2 = literal_field [''low'', ''medium'', ''high''] (map_of data ''priority'');
          r3 = optional_str_field (map_of data ''due_date'');
          r4 = str_field (map_of data ''category'')
      in case (r1, r2, r3, r4) of
           (Inr d, Inr p, Inr dd, Inr c) \<Rightarrow>
             Inr \<lparr>description = d, priority = p, due_date = dd, category = c\<rparr>
         | _ \<Rightarrow>
             Inl (error_at ''description'' r1 @ error_at ''priority'' r2 @
                  error_at ''due_date'' r3 @ error_at ''category'' r4))"

text \<open>\<^verbatim>\<open>validated.model_dump()\<close>: the four fields, in the order of the class.\<close>

definition model_dump :: "TaskAnalysis \<Rightarrow> pydict" where
  "model_dump t =
     [(''description'', JString (description t)),
      (''priority'', JString (priority t)),
      (''due_date'', (case due_date t of None \<Rightarrow> JNull | Some s \<Rightarrow> JString s)),
      (''category'', JString (category t))]"

subsection \<open>The prompt (lines 30 to 56)\<close>

definition SYSTEM_PROMPT :: string where
  \<open>SYSTEM_PROMPT = ''You are a task parsing assistant. Extract structured fields from the user input.

Return ONLY valid JSON with the following fields:
- description: short task summary
- priority: one of low/medium/high
- due_date: ISO-8601 datetime (e.g., 2026-02-10T15:00:00). If not provided, use null.
- category: short category label (e.g., work, personal, study). If not provided, use "general".

Rules & Defaults:
- If priority is missing, set it to "medium".
- If due_date is missing, set it to null.
- If category is missing, set it to "general".
- Use the user's locale context if time is relative (e.g., "tomorrow at 3pm").
- Do not include any extra keys.

API call example (OpenAI Python client):
client.responses.create(
  model="gpt-4.1-mini",
  input=[{"role": "system", "content": SYSTEM_PROMPT},
         {"role": "user", "content": text}]
)

Error handling guidance:
- If the model output is not valid JSON, return a 502 with a clear error.
- If required fields are missing, apply defaults or return 422.''\<close>

subsection \<open>The world outside the handler\<close>

text \<open>
  One call of \<^verbatim>\<open>client.responses.create\<close>: the model's name and the messages, each a
  role and a content.
\<close>

record request =
  model :: string
  input :: "(string \<times> string) list"

text \<open>
  \<^item> \<open>getenv\<close> is \<^verbatim>\<open>os.getenv\<close>: the value of a variable, \<open>None\<close> when it is not set.
  \<^item> \<open>responses_create\<close> is the completion service: \<open>Inl\<close> the text (\<^verbatim>\<open>str(exc)\<close>)
    of the \<^verbatim>\<open>Exception\<close> the call raises, \<open>Inr\<close> the \<^verbatim>\<open>output_text\<close> of its response.
  \<^item> \<open>json_loads\<close> is \<^verbatim>\<open>json.loads\<close>: \<open>Inl\<close> the text of the \<^verbatim>\<open>Exception\<close> it
    raises, \<open>Inr\<close> the parsed value.
  \<^item> \<open>fromisoformat\<close> is \<^verbatim>\<open>datetime.fromisoformat\<close>, whose result the handler drops:
    \<open>Inl\<close> the text of its \<^verbatim>\<open>ValueError\<close>, \<open>Inr\<close> when the string parses.
\<close>

record world =
  getenv :: "string \<Rightarrow> string option"
  responses_create :: "request \<Rightarrow> string + string"
  json_loads :: "string \<Rightarrow> string + json"
  fromisoformat :: "string \<Rightarrow> string + unit"

text \<open>Python's \<^verbatim>\<open>not v\<close> on an optional string: true on \<^verbatim>\<open>None\<close> and on \<^verbatim>\<open>""\<close>.\<close>

fun falsy :: "string option \<Rightarrow> bool" where
  "falsy None = True"
| "falsy (Some s) = (s = [])"

subsection \<open>The handler (lines 59 to 103)\<close>

text \<open>
  What leaves the handler other than a response: an \<^verbatim>\<open>HTTPException\<close> with its status
  and detail (a text, or the list of field errors), or the \<^verbatim>\<open>AttributeError\<close> of a
  method call on a value that has no such method, which no \<^verbatim>\<open>except\<close> of the
  handler catches; it holds the name of the value's type and the name of the method
  (Python's message is \<^verbatim>\<open>'list' object has no attribute 'get'\<close>).
\<close>

datatype detail = Text string | Errors "field_error list"

datatype failure = HTTPException nat detail | AttributeError string string

text \<open>Lines 67 to 73: the arguments of the call.\<close>

definition model_request :: "TaskRequest \<Rightarrow> request" where
  "model_request payload =
     \<lparr>model = ''gpt-4.1-mini'',
      input = [(''system'', SYSTEM_PROMPT), (''user'', payload_text payload)]\<rparr>"

text \<open>Lines 85 to 90: the defaults, each an assignment to the parsed \<^verbatim>\<open>dict\<close>.\<close>

definition apply_defaults :: "pydict \<Rightarrow> pydict" where
  "apply_defaults data0 =
     (let data1 = (if dict_get data0 ''priority'' = JNull
                   then AList.update ''priority'' (JString ''medium'') data0 else data0);
          data2 = (if dict_get data1 ''category'' = JNull \<or> dict_get data1 ''category'' = JString ''''
                   then AList.update ''category'' (JString ''general'') data1 else data1);
          data3 = (if dict_get data2 ''due_date'' = JNull
                   then AList.update ''due_date'' JNull data2 else data2)
      in data3)"

text \<open>
  Lines 85 to 103, on the value \<^verbatim>\<open>json.loads\<close> returned. \<^verbatim>\<open>data.get\<close> exists on a
  \<^verbatim>\<open>dict\<close> only: on any other value line 85 raises \<^verbatim>\<open>AttributeError\<close>, outside
  every \<^verbatim>\<open>try\<close>.
\<close>

definition validate_output :: "world \<Rightarrow> json \<Rightarrow> failure + pydict" where
  "validate_output W v =
     (case v of
        JObject data \<Rightarrow>
          (case TaskAnalysis_init (apply_defaults data) of
             Inl errs \<Rightarrow> Inl (HTTPException 422 (Errors errs))
           | Inr validated \<Rightarrow>
               (case due_date validated of
                  None \<Rightarrow> Inr (model_dump validated)
                | Some s \<Rightarrow>
                    (case fromisoformat W s of
                       Inl exc \<Rightarrow> Inl (HTTPException 422 (Text (''Invalid due_date: '' @ exc)))
                     | Inr _ \<Rightarrow> Inr (model_dump validated))))
      | _ \<Rightarrow> Inl (AttributeError (type_name v) ''get''))"

text \<open>
  The handler: the outcome (\<open>Inl\<close> what is raised, \<open>Inr\<close> the content of the
  \<^verbatim>\<open>JSONResponse\<close>, sent with status 200), and the calls made to the completion service.
\<close>

definition analyze_task :: "world \<Rightarrow> TaskRequest \<Rightarrow> (failure + pydict) \<times> request list" where
  "analyze_task W payload =
     (if falsy (getenv W ''OPENAI_API_KEY'') then
        (Inl (HTTPException 500
               (Text ''OPENAI_API_KEY is not set. Configure it to call the OpenAI API.'')), [])
      else
        (case responses_create W (model_request payload) of
           Inl exc \<Rightarrow>
             (Inl (HTTPException 502 (Text (''OpenAI API error: '' @ exc))),
              [model_request payload])
         | Inr content \<Rightarrow>
             (case json_loads W content of
                Inl exc \<Rightarrow>
                  (Inl (HTTPException 502 (Text (''Invalid JSON from model: '' @ exc))),
                   [model_request payload])
              | Inr v \<Rightarrow> (validate_output W v, [model_request payload]))))"

subsection \<open>Sample worlds\<close>

text \<open>
  A world for the concrete instances below: the variable \<^verbatim>\<open>OPENAI_API_KEY\<close> has the
  value \<open>key\<close> (or is not set), the service answers every request with \<open>reply\<close> (a
  text, or an exception), and the two library functions are given on the texts the
  instances use: what \<^verbatim>\<open>json.loads\<close> and \<^verbatim>\<open>datetime.fromisoformat\<close> return on exactly
  these strings; every other string is taken as one they reject.
\<close>

definition sample_loads :: "string \<Rightarrow> string + json" where
  \<open>sample_loads s =
     (if s = ''{"description": "Finish the report"}'' then
        Inr (JObject [(''description'', JString ''Finish the report'')])
      else if s = ''{"description":"Finish the report","priority":"high","due_date":"2026-02-11T15:00:00","category":"work"}'' then
        Inr (JObject [(''description'', JString ''Finish the report''),
                      (''priority'', JString ''high''),
                      (''due_date'', JString ''2026-02-11T15:00:00''),
                      (''category'', JString ''work'')])
      else if s = ''{"description": "Call Sam", "priority": "urgent", "category": 7}'' then
        Inr (JObject [(''description'', JString ''Call Sam''),
                      (''priority'', JString ''urgent''),
                      (''category'', JInt 7)])
      else if s = ''{"description": "Call Sam", "due_date": "next tuesday", "notes": [1]}'' then
        Inr (JObject [(''description'', JString ''Call Sam''),
                      (''due_date'', JString ''next tuesday''),
                      (''notes'', JArray [JInt 1])])
      else if s = ''{"description": "Pay rent", "priority": "low", "confidence": 1, "category": ""}'' then
        Inr (JObject [(''description'', JString ''Pay rent''),
                      (''priority'', JString ''low''),
                      (''confidence'', JInt 1),
                      (''category'', JString '''')])
      else if s = ''[]'' then Inr (JArray [])
      else if s = ''"Sorry"'' then Inr (JString ''Sorry'')
      else if s = ''42'' then Inr (JInt 42)
      else if s = ''null'' then Inr JNull
      else Inl ''Expecting value: line 1 column 1 (char 0)'')\<close>

definition sample_fromisoformat :: "string \<Rightarrow> string + unit" where
  "sample_fromisoformat s =
     (if s = ''2026-02-11T15:00:00'' then Inr ()
      else Inl (''Invalid isoformat string: '' @ [CHR 0x27] @ s @ [CHR 0x27]))"

definition sample_world :: "string option \<Rightarrow> string + string \<Rightarrow> world" where
  "sample_world key reply =
     \<lparr>getenv = (\<lambda>name. if name = ''OPENAI_API_KEY'' then key else None),
      responses_create = (\<lambda>_. reply),
      json_loads = sample_loads,
      fromisoformat = sample_fromisoformat\<rparr>"

section \<open>Properties\<close>

subsection \<open>Reading and assigning keys\<close>

lemma map_of_update: "map_of (AList.update k v d) k' = (if k' = k then Some v else map_of d k')"
  by (simp add: update_conv')

lemma dict_get_JNull_iff:
  "dict_get d k = JNull \<longleftrightarrow> map_of d k = None \<or> map_of d k = Some JNull"
  by (simp add: dict_get_def split: option.splits)

lemma dict_get_eq_iff:
  "v \<noteq> JNull \<Longrightarrow> dict_get d k = v \<longleftrightarrow> map_of d k = Some v"
  by (auto simp add: dict_get_def split: option.splits)

lemma set_priority:
  "map_of (if dict_get d ''priority'' = JNull
           then AList.update ''priority'' (JString ''medium'') d else d) k =
   (if k = ''priority'' \<and> (map_of d k = None \<or> map_of d k = Some JNull)
    then Some (JString ''medium'') else map_of d k)"
  by (cases "dict_get d ''priority'' = JNull")
     (auto simp add: map_of_update dict_get_JNull_iff)

lemma set_category:
  "map_of (if dict_get d ''category'' = JNull \<or> dict_get d ''category'' = JString ''''
           then AList.update ''category'' (JString ''general'') d else d) k =
   (if k = ''category'' \<and> (map_of d k = None \<or> map_of d k = Some JNull \<or>
                            map_of d k = Some (JString ''''))
    then Some (JString ''general'') else map_of d k)"
  by (cases "dict_get d ''category'' = JNull \<or> dict_get d ''category'' = JString ''''")
     (auto simp add: map_of_update dict_get_JNull_iff dict_get_eq_iff)

lemma set_due_date:
  "map_of (if dict_get d ''due_date'' = JNull
           then AList.update ''due_date'' JNull d else d) k =
   (if k = ''due_date'' \<and> map_of d k = None then Some JNull else map_of d k)"
  by (cases "dict_get d ''due_date'' = JNull")
     (auto simp add: map_of_update dict_get_JNull_iff)

lemma map_of_apply_defaults:
  "map_of (apply_defaults d) k =
     (if k = ''priority'' \<and> (map_of d k = None \<or> map_of d k = Some JNull)
        then Some (JString ''medium'')
      else if k = ''category'' \<and> (map_of d k = None \<or> map_of d k = Some JNull \<or>
                                   map_of d k = Some (JString ''''))
        then Some (JString ''general'')
      else if k = ''due_date'' \<and> map_of d k = None then Some JNull
      else map_of d k)"
proof -
  define d1 where
    "d1 = (if dict_get d ''priority'' = JNull
           then AList.update ''priority'' (JString ''medium'') d else d)"
  define d2 where
    "d2 = (if dict_get d1 ''category'' = JNull \<or> dict_get d1 ''category'' = JString []
           then AList.update ''category'' (JString ''general'') d1 else d1)"
  have e: "apply_defaults d =
             (if dict_get d2 ''due_date'' = JNull then AList.update ''due_date'' JNull d2 else d2)"
    by (simp add: apply_defaults_def Let_def d1_def d2_def)
  have m1: "map_of d1 k' =
      (if k' = ''priority'' \<and> (map_of d k' = None \<or> map_of d k' = Some JNull)
       then Some (JString ''medium'') else map_of d k')" for k'
    unfolding d1_def by (rule set_priority)
  have m2: "map_of d2 k' =
      (if k' = ''category'' \<and> (map_of d1 k' = None \<or> map_of d1 k' = Some JNull \<or>
                                   map_of d1 k' = Some (JString []))
       then Some (JString ''general'') else map_of d1 k')" for k'
    unfolding d2_def by (rule set_category)
  have m3: "map_of (apply_defaults d) k' =
      (if k' = ''due_date'' \<and> map_of d2 k' = None then Some JNull else map_of d2 k')" for k'
    unfolding e by (rule set_due_date)
  consider "k = ''priority''" | "k = ''category''" | "k = ''due_date''"
    | "k \<noteq> ''priority''" "k \<noteq> ''category''" "k \<noteq> ''due_date''"
    by blast
  then show ?thesis
  proof cases
    case 1
    then show ?thesis by (simp add: m3 m2 m1)
  next
    case 2
    then show ?thesis by (simp add: m3 m2 m1)
  next
    case 3
    then show ?thesis by (simp add: m3 m2 m1)
  next
    case 4
    then show ?thesis by (simp add: m3 m2 m1)
  qed
qed

lemma keys_defaults: "fst ` set d \<subseteq> fst ` set (apply_defaults d)"
  by (auto simp add: apply_defaults_def Let_def dom_update)

text \<open>The keys of a parsed object are distinct, and stay so.\<close>

lemma distinct_apply_defaults:
  "distinct (map fst d) \<Longrightarrow> distinct (map fst (apply_defaults d))"
  by (simp add: apply_defaults_def Let_def distinct_update)

lemma filter_update_other:
  "\<not> P k \<Longrightarrow> filter (\<lambda>e. P (fst e)) (AList.update k v d) = filter (\<lambda>e. P (fst e)) d"
  by (induction d) auto

subsection \<open>The stages of the handler\<close>

lemma analyze_task_replied:
  "\<not> falsy (getenv W ''OPENAI_API_KEY'') \<Longrightarrow>
   responses_create W (model_request payload) = Inr content \<Longrightarrow>
   json_loads W content = Inr v \<Longrightarrow>
   analyze_task W payload = (validate_output W v, [model_request payload])"
  by (simp add: analyze_task_def)


lemma validate_output_Inr_D:
  "validate_output W v = Inr body \<Longrightarrow>
   \<exists>data t. v = JObject data \<and> TaskAnalysis_init (apply_defaults data) = Inr t \<and>
     body = model_dump t \<and>
     (due_date t = None \<or> (\<exists>s. due_date t = Some s \<and> fromisoformat W s = Inr ()))"
  by (auto simp add: validate_output_def split: json.splits sum.splits option.splits)

text \<open>With the credential configured the handler makes exactly one call.\<close>

lemma one_call_when_configured:
  "\<not> falsy (getenv W ''OPENAI_API_KEY'') \<Longrightarrow>
   snd (analyze_task W payload) = [model_request payload]"
  by (simp add: analyze_task_def split: sum.splits)

subsection \<open>The missing credential\<close>

text \<open>
  C4. When the variable \<^verbatim>\<open>OPENAI_API_KEY\<close> is not set, the handler raises the
  \<^verbatim>\<open>HTTPException\<close> with status 500 and the fixed message, whatever the text of the
  request and whatever the service would have answered, and it makes no call to the
  completion service.
\<close>

theorem missing_credential_500:
  "getenv W ''OPENAI_API_KEY'' = None \<Longrightarrow>
   analyze_task W payload =
     (Inl (HTTPException 500
            (Text ''OPENAI_API_KEY is not set. Configure it to call the OpenAI API.'')), [])"
  by (simp add: analyze_task_def)

theorem missing_credential_500_witness:
  "getenv (sample_world None (Inr ''[]'')) ''OPENAI_API_KEY'' = None \<and>
   analyze_task (sample_world None (Inr ''[]'')) \<lparr>payload_text = ''Buy milk''\<rparr> =
     (Inl (HTTPException 500
            (Text ''OPENAI_API_KEY is not set. Configure it to call the OpenAI API.'')), [])"
proof -
  have h: "getenv (sample_world None (Inr ''[]'')) ''OPENAI_API_KEY'' = None"
    by (simp add: sample_world_def)
  show ?thesis
    using h missing_credential_500 [OF h, of "\<lparr>payload_text = ''Buy milk''\<rparr>"] by simp
qed

text \<open>The same holds when the variable is set to the empty string.\<close>

lemma empty_credential_500:
  "getenv W ''OPENAI_API_KEY'' = Some [] \<Longrightarrow>
   analyze_task W payload =
     (Inl (HTTPException 500
            (Text ''OPENAI_API_KEY is not set. Configure it to call the OpenAI API.'')), [])"
  by (simp add: analyze_task_def)

subsection \<open>Schema validation\<close>

lemma str_field_Inr_iff: "str_field x = Inr s \<longleftrightarrow> x = Some (JString s)"
  by (cases x rule: str_field.cases) auto


lemma optional_str_field_Inr_iff:
  "optional_str_field x = Inr r \<longleftrightarrow>
     (r = None \<and> (x = None \<or> x = Some JNull)) \<or> (\<exists>s. r = Some s \<and> x = Some (JString s))"
  by (cases x rule: optional_str_field.cases) auto

lemma TaskAnalysis_init_Inr_iff:
  "TaskAnalysis_init d = Inr t \<longleftrightarrow>
     str_field (map_of d ''description'') = Inr (description t) \<and>
     literal_field [''low'', ''medium'', ''high''] (map_of d ''priority'') = Inr (priority t) \<and>
     optional_str_field (map_of d ''due_date'') = Inr (due_date t) \<and>
     str_field (map_of d ''category'') = Inr (category t)"
  by (cases t) (auto simp add: TaskAnalysis_init_def Let_def split: sum.splits)

lemma model_dump_keys:
  "map fst (model_dump t) = [''description'', ''priority'', ''due_date'', ''category'']"
  by (simp add: model_dump_def)

lemma map_of_model_dump:
  "map_of (model_dump t) k =
     (if k = ''description'' then Some (JString (description t))
      else if k = ''priority'' then Some (JString (priority t))
      else if k = ''due_date'' then Some (case due_date t of None \<Rightarrow> JNull | Some s \<Rightarrow> JString s)
      else if k = ''category'' then Some (JString (category t))
      else None)"
  by (simp add: model_dump_def)

subsection \<open>The success response\<close>


text \<open>The definitions that evaluate the handler in a sample world.\<close>

lemmas sample_defs =
  analyze_task_def validate_output_def TaskAnalysis_init_def apply_defaults_def
  dict_get_def model_dump_def error_at_def Let_def
  sample_world_def sample_loads_def sample_fromisoformat_def


subsection \<open>What the defaults leave alone\<close>

lemma filter_apply_defaults_gen:
  "\<not> P ''priority'' \<Longrightarrow> \<not> P ''category'' \<Longrightarrow> \<not> P ''due_date'' \<Longrightarrow>
   filter (\<lambda>e. P (fst e)) (apply_defaults d) = filter (\<lambda>e. P (fst e)) d"
  by (simp add: apply_defaults_def Let_def filter_update_other)

lemma filter_apply_defaults:
  "filter (\<lambda>e. fst e \<notin> {''priority'', ''category'', ''due_date''}) (apply_defaults d) =
   filter (\<lambda>e. fst e \<notin> {''priority'', ''category'', ''due_date''}) d"
  by (rule filter_apply_defaults_gen) simp_all

text \<open>
  C8. The defaults touch the keys \<^verbatim>\<open>priority\<close>, \<^verbatim>\<open>category\<close> and \<^verbatim>\<open>due_date\<close> only:
  every other key reads the same value after as before, the entries of the other keys
  are the same and in the same order, and every key of the parsed object is still a key
  of the defaulted one.
\<close>

theorem defaults_frame:
  "(k \<notin> {''priority'', ''category'', ''due_date''} \<longrightarrow>
      map_of (apply_defaults d) k = map_of d k) \<and>
   filter (\<lambda>e. fst e \<notin> {''priority'', ''category'', ''due_date''}) (apply_defaults d) =
     filter (\<lambda>e. fst e \<notin> {''priority'', ''category'', ''due_date''}) d \<and>
   fst ` set d \<subseteq> fst ` set (apply_defaults d)"
proof -
  have "map_of (apply_defaults d) k = map_of d k"
    if "k \<notin> {''priority'', ''category'', ''due_date''}"
    using that by (simp add: map_of_apply_defaults)
  then show ?thesis
    using filter_apply_defaults [of d] keys_defaults [of d] by blast
qed

theorem defaults_frame_witness:
  "''confidence'' \<notin> {''priority'', ''category'', ''due_date''} \<and>
   map_of (apply_defaults
      [(''description'', JString ''Pay rent''), (''priority'', JString ''low''),
       (''confidence'', JInt 1), (''category'', JString '''')]) ''confidence'' = Some (JInt 1) \<and>
   filter (\<lambda>e. fst e \<notin> {''priority'', ''category'', ''due_date''})
     (apply_defaults
      [(''description'', JString ''Pay rent''), (''priority'', JString ''low''),
       (''confidence'', JInt 1), (''category'', JString '''')]) =
     [(''description'', JString ''Pay rent''), (''confidence'', JInt 1)] \<and>
   apply_defaults
      [(''description'', JString ''Pay rent''), (''priority'', JString ''low''),
       (''confidence'', JInt 1), (''category'', JString '''')] =
      [(''description'', JString ''Pay rent''), (''priority'', JString ''low''),
       (''confidence'', JInt 1), (''category'', JString ''general''), (''due_date'', JNull)]"
proof -
  have h: "''confidence'' \<notin> {''priority'', ''category'', ''due_date''}"
    by simp
  have e: "apply_defaults
      [(''description'', JString ''Pay rent''), (''priority'', JString ''low''),
       (''confidence'', JInt 1), (''category'', JString '''')] =
      [(''description'', JString ''Pay rent''), (''priority'', JString ''low''),
       (''confidence'', JInt 1), (''category'', JString ''general''), (''due_date'', JNull)]"
    by (simp add: apply_defaults_def dict_get_def Let_def)
  show ?thesis
    using h e defaults_frame [of "''confidence''"
      "[(''description'', JString ''Pay rent''), (''priority'', JString ''low''),
       (''confidence'', JInt 1), (''category'', JString '''')]"]
    by simp
qed

subsection \<open>When a default is set\<close>

text \<open>
  An object that has a priority and a category to keep and a due date, null or not, is
  left as it is: assigning null to a null due date changes nothing.
\<close>

lemma apply_defaults_unchanged:
  assumes "map_of d ''priority'' = Some p" and "p \<noteq> JNull"
    and "map_of d ''category'' = Some c" and "c \<noteq> JNull" and "c \<noteq> JString ''''"
    and "map_of d ''due_date'' = Some dd"
  shows "apply_defaults d = d"
proof (cases "dd = JNull")
  case True
  with assms show ?thesis
    by (simp add: apply_defaults_def Let_def dict_get_def update_triv)
next
  case False
  with assms show ?thesis
    by (simp add: apply_defaults_def Let_def dict_get_def)
qed

lemma only_description_defaults:
  "apply_defaults [(''description'', v)] =
     [(''description'', v), (''priority'', JString ''medium''),
      (''category'', JString ''general''), (''due_date'', JNull)]"
  by (simp add: apply_defaults_def dict_get_def Let_def)

text \<open>
  C2. After the defaults, \<^verbatim>\<open>priority\<close> is \<^verbatim>\<open>"medium"\<close> when it was absent or null and
  is what it was otherwise; \<^verbatim>\<open>category\<close> is \<^verbatim>\<open>"general"\<close> when it was absent, null
  or the empty string and is what it was otherwise; \<^verbatim>\<open>due_date\<close> is null when it was
  absent and is what it was otherwise. When the service returns an object whose only
  key is \<^verbatim>\<open>description\<close>, with a string, the response is that description with
  priority \<^verbatim>\<open>"medium"\<close>, category \<^verbatim>\<open>"general"\<close> and a null due date (and when the
  description is no string there is no response, but a 422).
\<close>

theorem defaults_set_exactly_when:
  "map_of (apply_defaults d) ''priority'' =
     (if map_of d ''priority'' = None \<or> map_of d ''priority'' = Some JNull
      then Some (JString ''medium'') else map_of d ''priority'') \<and>
   map_of (apply_defaults d) ''category'' =
     (if map_of d ''category'' = None \<or> map_of d ''category'' = Some JNull \<or>
         map_of d ''category'' = Some (JString '''')
      then Some (JString ''general'') else map_of d ''category'') \<and>
   map_of (apply_defaults d) ''due_date'' =
     (if map_of d ''due_date'' = None then Some JNull else map_of d ''due_date'') \<and>
   (\<not> falsy (getenv W ''OPENAI_API_KEY'') \<and>
    responses_create W (model_request payload) = Inr content \<and>
    json_loads W content = Inr (JObject [(''description'', v)]) \<longrightarrow>
    fst (analyze_task W payload) =
      (case v of
         JString s \<Rightarrow>
           Inr [(''description'', JString s), (''priority'', JString ''medium''),
                (''due_date'', JNull), (''category'', JString ''general'')]
       | _ \<Rightarrow> Inl (HTTPException 422 (Errors [(''description'', String_type)]))))"
proof -
  have "fst (analyze_task W payload) =
      (case v of
         JString s \<Rightarrow>
           Inr [(''description'', JString s), (''priority'', JString ''medium''),
                (''due_date'', JNull), (''category'', JString ''general'')]
       | _ \<Rightarrow> Inl (HTTPException 422 (Errors [(''description'', String_type)])))"
    if "\<not> falsy (getenv W ''OPENAI_API_KEY'')"
      and "responses_create W (model_request payload) = Inr content"
      and "json_loads W content = Inr (JObject [(''description'', v)])"
    using that
    by (cases v)
       (simp_all add: analyze_task_replied validate_output_def only_description_defaults
          TaskAnalysis_init_def model_dump_def error_at_def Let_def)
  then show ?thesis
    by (simp add: map_of_apply_defaults)
qed

theorem defaults_set_exactly_when_witness:
  \<open>\<not> falsy (getenv (sample_world (Some ''sk-test'') (Inr ''{"description": "Finish the report"}''))
             ''OPENAI_API_KEY'') \<and>
   responses_create (sample_world (Some ''sk-test'') (Inr ''{"description": "Finish the report"}''))
      (model_request \<lparr>payload_text = ''Finish the report''\<rparr>) =
      Inr ''{"description": "Finish the report"}'' \<and>
   json_loads (sample_world (Some ''sk-test'') (Inr ''{"description": "Finish the report"}''))
      ''{"description": "Finish the report"}'' =
      Inr (JObject [(''description'', JString ''Finish the report'')]) \<and>
   fst (analyze_task (sample_world (Some ''sk-test'') (Inr ''{"description": "Finish the report"}''))
          \<lparr>payload_text = ''Finish the report''\<rparr>) =
      Inr [(''description'', JString ''Finish the report''), (''priority'', JString ''medium''),
           (''due_date'', JNull), (''category'', JString ''general'')]\<close>
proof -
  have h: \<open>\<not> falsy (getenv (sample_world (Some ''sk-test'') (Inr ''{"description": "Finish the report"}''))
             ''OPENAI_API_KEY'') \<and>
   responses_create (sample_world (Some ''sk-test'') (Inr ''{"description": "Finish the report"}''))
      (model_request \<lparr>payload_text = ''Finish the report''\<rparr>) =
      Inr ''{"description": "Finish the report"}'' \<and>
   json_loads (sample_world (Some ''sk-test'') (Inr ''{"description": "Finish the report"}''))
      ''{"description": "Finish the report"}'' =
      Inr (JObject [(''description'', JString ''Finish the report'')])\<close>
    by (simp add: sample_world_def sample_loads_def)
  show ?thesis
    using h defaults_set_exactly_when
      [of "[]" "sample_world (Some ''sk-test'') (Inr ''{\"description\": \"Finish the report\"}'')"
          "\<lparr>payload_text = ''Finish the report''\<rparr>"
          "''{\"description\": \"Finish the report\"}''" "JString ''Finish the report''"]
    by simp
qed

subsection \<open>Keys that are no field of the schema\<close>

text \<open>
  C10. When the service returns an object and the handler answers with a response, the
  body has exactly the keys \<^verbatim>\<open>description\<close>, \<^verbatim>\<open>priority\<close>, \<^verbatim>\<open>due_date\<close>,
  \<^verbatim>\<open>category\<close>. Every key of the object is a key of the defaulted object, a key
  other than the three defaulted ones with its value, and no key other than the four
  fields is in the body.
\<close>

theorem response_has_only_schema_fields:
  assumes "\<not> falsy (getenv W ''OPENAI_API_KEY'')"
    and "responses_create W (model_request payload) = Inr content"
    and "json_loads W content = Inr (JObject data)"
    and "fst (analyze_task W payload) = Inr body"
  shows "map fst body = [''description'', ''priority'', ''due_date'', ''category''] \<and>
         fst ` set data \<subseteq> fst ` set (apply_defaults data) \<and>
         (\<forall>k. k \<notin> {''priority'', ''category'', ''due_date''} \<longrightarrow>
              map_of (apply_defaults data) k = map_of data k) \<and>
         (\<forall>k. k \<notin> {''description'', ''priority'', ''due_date'', ''category''} \<longrightarrow>
              map_of body k = None)"
proof -
  from assms have "validate_output W (JObject data) = Inr body"
    by (simp add: analyze_task_replied)
  then obtain t where body: "body = model_dump t"
    using validate_output_Inr_D by blast
  have "map fst body = [''description'', ''priority'', ''due_date'', ''category'']"
    by (simp add: body model_dump_keys)
  moreover have "\<forall>k. k \<notin> {''priority'', ''category'', ''due_date''} \<longrightarrow>
              map_of (apply_defaults data) k = map_of data k"
    by (simp add: map_of_apply_defaults)
  moreover have "\<forall>k. k \<notin> {''description'', ''priority'', ''due_date'', ''category''} \<longrightarrow>
              map_of body k = None"
    by (simp add: body map_of_model_dump)
  ultimately show ?thesis
    using keys_defaults [of data] by blast
qed

theorem response_has_only_schema_fields_witness:
  \<open>fst (analyze_task
          (sample_world (Some ''sk-test'')
             (Inr ''{"description": "Pay rent", "priority": "low", "confidence": 1, "category": ""}''))
          \<lparr>payload_text = ''Pay the rent''\<rparr>) =
     Inr [(''description'', JString ''Pay rent''), (''priority'', JString ''low''),
          (''due_date'', JNull), (''category'', JString ''general'')] \<and>
   map_of (apply_defaults
      [(''description'', JString ''Pay rent''), (''priority'', JString ''low''),
       (''confidence'', JInt 1), (''category'', JString '''')]) ''confidence'' = Some (JInt 1) \<and>
   map_of [(''description'', JString ''Pay rent''), (''priority'', JString ''low''),
          (''due_date'', JNull), (''category'', JString ''general'')] ''confidence'' = None\<close>
proof -
  have h1: \<open>\<not> falsy (getenv (sample_world (Some ''sk-test'')
             (Inr ''{"description": "Pay rent", "priority": "low", "confidence": 1, "category": ""}''))
             ''OPENAI_API_KEY'')\<close>
    by (simp add: sample_world_def)
  have h2: \<open>responses_create (sample_world (Some ''sk-test'')
             (Inr ''{"description": "Pay rent", "priority": "low", "confidence": 1, "category": ""}''))
             (model_request \<lparr>payload_text = ''Pay the rent''\<rparr>) =
           Inr ''{"description": "Pay rent", "priority": "low", "confidence": 1, "category": ""}''\<close>
    by (simp add: sample_world_def)
  have h3: \<open>json_loads (sample_world (Some ''sk-test'')
             (Inr ''{"description": "Pay rent", "priority": "low", "confidence": 1, "category": ""}''))
             ''{"description": "Pay rent", "priority": "low", "confidence": 1, "category": ""}'' =
           Inr (JObject [(''description'', JString ''Pay rent''), (''priority'', JString ''low''),
                         (''confidence'', JInt 1), (''category'', JString '''')])\<close>
    by (simp add: sample_world_def sample_loads_def)
  have h4: \<open>fst (analyze_task
          (sample_world (Some ''sk-test'')
             (Inr ''{"description": "Pay rent", "priority": "low", "confidence": 1, "category": ""}''))
          \<lparr>payload_text = ''Pay the rent''\<rparr>) =
     Inr [(''description'', JString ''Pay rent''), (''priority'', JString ''low''),
          (''due_date'', JNull), (''category'', JString ''general'')]\<close>
    by (simp add: sample_defs)
  from response_has_only_schema_fields [OF h1 h2 h3 h4] h4 show ?thesis
    by simp
qed

subsection \<open>Schema violations\<close>









subsection \<open>Gateway failures\<close>

lemma validate_output_cases:
  "(\<exists>body. validate_output W v = Inr body) \<or>
   (\<exists>d. validate_output W v = Inl (HTTPException 422 d)) \<or>
   ((\<forall>data. v \<noteq> JObject data) \<and> validate_output W v = Inl (AttributeError (type_name v) ''get''))"
  by (cases v) (auto simp add: validate_output_def split: sum.splits option.splits)

lemma validate_output_not_502: "validate_output W v \<noteq> Inl (HTTPException 502 d)"
  using validate_output_cases [of W v] by auto

text \<open>
  C5. With the credential configured: when the call to the service raises, the handler
  raises the \<^verbatim>\<open>HTTPException\<close> with status 502 whose detail is
  \<^verbatim>\<open>OpenAI API error: \<close> followed by the text of that exception; when the call returns
  and \<^verbatim>\<open>json.loads\<close> raises on its text, the handler raises status 502 with the
  detail \<^verbatim>\<open>Invalid JSON from model: \<close> followed by the text of that exception. One call
  was made in both cases. When the text parses, no outcome of the handler has status
  502: the failures of validation are not gateway failures.
\<close>

theorem gateway_failures_502:
  assumes "\<not> falsy (getenv W ''OPENAI_API_KEY'')"
  shows "(responses_create W (model_request payload) = Inl exc \<longrightarrow>
            analyze_task W payload =
              (Inl (HTTPException 502 (Text (''OpenAI API error: '' @ exc))),
               [model_request payload])) \<and>
         (responses_create W (model_request payload) = Inr content \<and>
          json_loads W content = Inl exc \<longrightarrow>
            analyze_task W payload =
              (Inl (HTTPException 502 (Text (''Invalid JSON from model: '' @ exc))),
               [model_request payload])) \<and>
         (responses_create W (model_request payload) = Inr content \<and>
          json_loads W content = Inr v \<longrightarrow>
            (\<forall>d. fst (analyze_task W payload) \<noteq> Inl (HTTPException 502 d)))"
  using assms by (simp add: analyze_task_def validate_output_not_502)

theorem gateway_failures_502_witness:
  "analyze_task (sample_world (Some ''sk-test'') (Inl ''Connection error.''))
      \<lparr>payload_text = ''Buy milk''\<rparr> =
     (Inl (HTTPException 502 (Text ''OpenAI API error: Connection error.'')),
      [model_request \<lparr>payload_text = ''Buy milk''\<rparr>]) \<and>
   analyze_task (sample_world (Some ''sk-test'') (Inr ''Sorry, I can't help''))
      \<lparr>payload_text = ''Buy milk''\<rparr> =
     (Inl (HTTPException 502
        (Text ''Invalid JSON from model: Expecting value: line 1 column 1 (char 0)'')),
      [model_request \<lparr>payload_text = ''Buy milk''\<rparr>])"
proof -
  have k: "\<not> falsy (getenv (sample_world (Some ''sk-test'') r) ''OPENAI_API_KEY'')" for r
    by (simp add: sample_world_def)
  have c1: "responses_create (sample_world (Some ''sk-test'') (Inl ''Connection error.''))
      (model_request \<lparr>payload_text = ''Buy milk''\<rparr>) = Inl ''Connection error.''"
    by (simp add: sample_world_def)
  have c2: "responses_create (sample_world (Some ''sk-test'') (Inr ''Sorry, I can't help''))
      (model_request \<lparr>payload_text = ''Buy milk''\<rparr>) = Inr ''Sorry, I can't help'' \<and>
    json_loads (sample_world (Some ''sk-test'') (Inr ''Sorry, I can't help''))
      ''Sorry, I can't help'' = Inl ''Expecting value: line 1 column 1 (char 0)''"
    by (simp add: sample_world_def sample_loads_def)
  show ?thesis
    using c1 c2
      gateway_failures_502 [OF k, of "Inl ''Connection error.''"
        "\<lparr>payload_text = ''Buy milk''\<rparr>" "''Connection error.''"]
      gateway_failures_502 [OF k, of "Inr ''Sorry, I can't help''"
        "\<lparr>payload_text = ''Buy milk''\<rparr>" "''Expecting value: line 1 column 1 (char 0)''"
        "''Sorry, I can't help''"]
    by simp
qed

subsection \<open>The due date\<close>

text \<open>
  C7. When the defaulted object passes the schema validation and its \<^verbatim>\<open>due_date\<close> is
  a string on which \<^verbatim>\<open>datetime.fromisoformat\<close> raises, the handler raises the
  \<^verbatim>\<open>HTTPException\<close> with status 422 whose detail is \<^verbatim>\<open>Invalid due_date: \<close> followed by
  the text of the \<^verbatim>\<open>ValueError\<close>.
\<close>

theorem invalid_due_date_422:
  assumes "\<not> falsy (getenv W ''OPENAI_API_KEY'')"
    and "responses_create W (model_request payload) = Inr content"
    and "json_loads W content = Inr (JObject data)"
    and "TaskAnalysis_init (apply_defaults data) = Inr t"
    and "map_of (apply_defaults data) ''due_date'' = Some (JString s)"
    and "fromisoformat W s = Inl exc"
  shows "fst (analyze_task W payload) =
           Inl (HTTPException 422 (Text (''Invalid due_date: '' @ exc)))"
proof -
  from assms(4,5) have "due_date t = Some s"
    by (auto simp add: TaskAnalysis_init_Inr_iff optional_str_field_Inr_iff)
  with assms show ?thesis
    by (simp add: analyze_task_replied validate_output_def)
qed

theorem invalid_due_date_422_witness:
  \<open>fst (analyze_task
     (sample_world (Some ''sk-test'')
        (Inr ''{"description": "Call Sam", "due_date": "next tuesday", "notes": [1]}''))
     \<lparr>payload_text = ''Call Sam next tuesday''\<rparr>) =
   Inl (HTTPException 422
          (Text (''Invalid due_date: '' @ ''Invalid isoformat string: '' @
                 [CHR 0x27] @ ''next tuesday'' @ [CHR 0x27])))\<close>
proof -
  let ?W = \<open>sample_world (Some ''sk-test'')
        (Inr ''{"description": "Call Sam", "due_date": "next tuesday", "notes": [1]}'')\<close>
  let ?data = "[(''description'', JString ''Call Sam''),
                (''due_date'', JString ''next tuesday''),
                (''notes'', JArray [JInt 1])]"
  have h1: "\<not> falsy (getenv ?W ''OPENAI_API_KEY'')"
    by (simp add: sample_world_def)
  have h2: \<open>responses_create ?W (model_request \<lparr>payload_text = ''Call Sam next tuesday''\<rparr>) =
      Inr ''{"description": "Call Sam", "due_date": "next tuesday", "notes": [1]}''\<close>
    by (simp add: sample_world_def)
  have h3: \<open>json_loads ?W ''{"description": "Call Sam", "due_date": "next tuesday", "notes": [1]}'' =
      Inr (JObject ?data)\<close>
    by (simp add: sample_world_def sample_loads_def)
  have h4: "TaskAnalysis_init (apply_defaults ?data) =
      Inr \<lparr>description = ''Call Sam'', priority = ''medium'',
           due_date = Some ''next tuesday'', category = ''general''\<rparr>"
    by (simp add: TaskAnalysis_init_def apply_defaults_def dict_get_def Let_def)
  have h5: "map_of (apply_defaults ?data) ''due_date'' = Some (JString ''next tuesday'')"
    by (simp add: apply_defaults_def dict_get_def Let_def)
  have h6: "fromisoformat ?W ''next tuesday'' =
      Inl (''Invalid isoformat string: '' @ [CHR 0x27] @ ''next tuesday'' @ [CHR 0x27])"
    by (simp add: sample_world_def sample_fromisoformat_def)
  show ?thesis
    by (rule invalid_due_date_422 [OF h1 h2 h3 h4 h5 h6])
qed

subsection \<open>Determinism\<close>



subsection \<open>Replies that are JSON but no object\<close>

text \<open>
  C3. Not every output of the service ends in a response or in an \<^verbatim>\<open>HTTPException\<close>
  with status 500, 502 or 422. On the output \<^verbatim>\<open>[]\<close>, which is valid JSON,
  \<^verbatim>\<open>json.loads\<close> returns a list, line 85 calls \<^verbatim>\<open>data.get\<close> on it outside every
  \<^verbatim>\<open>try\<close>, and the \<^verbatim>\<open>AttributeError\<close> leaves the handler after the one call to the
  service.
\<close>

theorem list_reply_escapes_unmapped:
  "analyze_task (sample_world (Some ''sk-test'') (Inr ''[]'')) \<lparr>payload_text = ''Buy milk''\<rparr> =
     (Inl (AttributeError ''list'' ''get''), [model_request \<lparr>payload_text = ''Buy milk''\<rparr>])"
  by (simp add: analyze_task_def validate_output_def sample_world_def sample_loads_def)

lemma other_non_object_replies:
  \<open>fst (analyze_task (sample_world (Some ''sk-test'') (Inr ''"Sorry"''))
          \<lparr>payload_text = ''Buy milk''\<rparr>) = Inl (AttributeError ''str'' ''get'')\<close>
  \<open>fst (analyze_task (sample_world (Some ''sk-test'') (Inr ''42''))
          \<lparr>payload_text = ''Buy milk''\<rparr>) = Inl (AttributeError ''int'' ''get'')\<close>
  \<open>fst (analyze_task (sample_world (Some ''sk-test'') (Inr ''null''))
          \<lparr>payload_text = ''Buy milk''\<rparr>) = Inl (AttributeError ''NoneType'' ''get'')\<close>
  by (simp_all add: analyze_task_def validate_output_def sample_world_def sample_loads_def)

text \<open>
  The same happens on every parsed value that is no object (a string, a number, a
  boolean, null, a list), and on these only: an object always ends in a response or in
  a 422, and the \<^verbatim>\<open>AttributeError\<close> is the one outcome of the handler that is neither a
  response nor an \<^verbatim>\<open>HTTPException\<close> with status 500, 502 or 422.
\<close>

lemma non_object_reply_escapes:
  assumes "\<not> falsy (getenv W ''OPENAI_API_KEY'')"
    and "responses_create W (model_request payload) = Inr content"
    and "json_loads W content = Inr v"
    and "\<And>data. v \<noteq> JObject data"
  shows "fst (analyze_task W payload) = Inl (AttributeError (type_name v) ''get'')"
  using assms by (cases v) (auto simp add: analyze_task_replied validate_output_def)

lemma object_reply_is_mapped:
  assumes "\<not> falsy (getenv W ''OPENAI_API_KEY'')"
    and "responses_create W (model_request payload) = Inr content"
    and "json_loads W content = Inr (JObject data)"
  shows "(\<exists>body. fst (analyze_task W payload) = Inr body) \<or>
         (\<exists>d. fst (analyze_task W payload) = Inl (HTTPException 422 d))"
  using assms validate_output_cases [of W "JObject data"]
  by (auto simp add: analyze_task_replied)

lemma analyze_task_outcomes:
  "(\<exists>body. fst (analyze_task W payload) = Inr body) \<or>
   (\<exists>d. fst (analyze_task W payload) = Inl (HTTPException 500 d)) \<or>
   (\<exists>d. fst (analyze_task W payload) = Inl (HTTPException 502 d)) \<or>
   (\<exists>d. fst (analyze_task W payload) = Inl (HTTPException 422 d)) \<or>
   (\<exists>content v. responses_create W (model_request payload) = Inr content \<and>
      json_loads W content = Inr v \<and> (\<forall>data. v \<noteq> JObject data) \<and>
      fst (analyze_task W payload) = Inl (AttributeError (type_name v) ''get''))"
proof (cases "falsy (getenv W ''OPENAI_API_KEY'')")
  case True
  then show ?thesis by (simp add: analyze_task_def)
next
  case key: False
  show ?thesis
  proof (cases "responses_create W (model_request payload)")
    case (Inl exc)
    with key show ?thesis by (simp add: analyze_task_def)
  next
    case (Inr content)
    note reply = this
    show ?thesis
    proof (cases "json_loads W content")
      case (Inl exc)
      with key reply show ?thesis by (simp add: analyze_task_def)
    next
      case (Inr v)
      with key reply have "fst (analyze_task W payload) = validate_output W v"
        by (simp add: analyze_task_replied)
      with reply Inr validate_output_cases [of W v] show ?thesis
        by auto
    qed
  qed
qed

end
